theory Spec2Isabelle
  imports Main "HOL-Library.Sublist"
begin

section \<open>Python strings\<close>

text \<open>
  A Python \<open>str\<close> is a sequence of code points; the model keeps the code points
  below 256, one per \<open>char\<close>. On that range \<open>str.isspace\<close>, \<open>str.lower\<close>,
  \<open>str.isdigit\<close> and \<open>int\<close> are the functions below.
\<close>

definition isspace :: "char \<Rightarrow> bool" where
  "isspace c = ((of_char c :: nat) \<in> set [9, 10, 11, 12, 13, 28, 29, 30, 31, 32, 133, 160])"

definition strip :: "string \<Rightarrow> string" where
  "strip s = rev (dropWhile isspace (rev (dropWhile isspace s)))"

definition lower_char :: "char \<Rightarrow> char" where
  "lower_char c =
     (let n = (of_char c :: nat)
      in if (65 \<le> n \<and> n \<le> 90) \<or> (192 \<le> n \<and> n \<le> 214) \<or> (216 \<le> n \<and> n \<le> 222)
         then char_of (n + 32) else c)"

definition lower :: "string \<Rightarrow> string" where
  "lower s = map lower_char s"

definition isdecimal_char :: "char \<Rightarrow> bool" where
  "isdecimal_char c = (48 \<le> (of_char c :: nat) \<and> (of_char c :: nat) \<le> 57)"

definition isdigit_char :: "char \<Rightarrow> bool" where
  "isdigit_char c = (isdecimal_char c \<or> (of_char c :: nat) \<in> set [178, 179, 185])"

definition isdigit :: "string \<Rightarrow> bool" where
  "isdigit s = (s \<noteq> [] \<and> list_all isdigit_char s)"

datatype py_error =
    EOFError | OSError | OverflowError | ValueError | TypeError | SystemExit

text \<open>
  \<open>int(s)\<close> on a string that passed \<open>isdigit\<close>: the decimal value, or \<open>ValueError\<close>
  when a superscript digit is among the characters. The accumulator is the value
  of the digits read so far. CPython (3.11 and later) refuses a string of more than
  4300 digits with \<open>ValueError\<close>, leading zeros counted.
\<close>

fun int_digits :: "int \<Rightarrow> string \<Rightarrow> py_error + int" where
  "int_digits acc [] = Inr acc"
| "int_digits acc (c # cs) =
     (if isdecimal_char c then int_digits (10 * acc + (of_char c - 48)) cs
      else Inl ValueError)"

definition py_int :: "string \<Rightarrow> py_error + int" where
  "py_int s =
     (if s = [] \<or> length s > 4300 then Inl ValueError else int_digits 0 s)"

text \<open>\<open>q in s\<close> on strings: \<open>q\<close> occurs in \<open>s\<close> as a contiguous block.\<close>

fun str_in :: "string \<Rightarrow> string \<Rightarrow> bool" where
  "str_in q [] = (q = [])"
| "str_in q (c # cs) = (prefix q (c # cs) \<or> str_in q cs)"

section \<open>Calendar dates\<close>

text \<open>
  A \<open>datetime.date\<close> is held as its proleptic Gregorian ordinal (\<open>date.toordinal\<close>,
  day 1 is 0001-01-01, the last day 9999-12-31 is 3652059). Adding a \<open>timedelta\<close>
  adds to the ordinal and raises \<open>OverflowError\<close> outside that range; \<open>isoformat\<close>
  turns the ordinal back into year, month and day.
\<close>

definition MAXORDINAL :: int where
  "MAXORDINAL = 3652059"

definition date_add :: "int \<Rightarrow> int \<Rightarrow> py_error + int" where
  "date_add d days =
     (let o' = d + days in if 0 < o' \<and> o' \<le> MAXORDINAL then Inr o' else Inl OverflowError)"

definition DAYS_IN_MONTH :: "int list" where
  "DAYS_IN_MONTH = [31, 28, 31, 30, 31, 30, 31, 31, 30, 31, 30, 31]"

definition DAYS_BEFORE_MONTH :: "int list" where
  "DAYS_BEFORE_MONTH = [0, 31, 59, 90, 120, 151, 181, 212, 243, 273, 304, 334]"

definition ord2ymd :: "int \<Rightarrow> int \<times> int \<times> int" where
  "ord2ymd n0 =
     (let n = n0 - 1;
          n400 = n div 146097; n = n mod 146097;
          n100 = n div 36524; n = n mod 36524;
          n4 = n div 1461; n = n mod 1461;
          n1 = n div 365; n = n mod 365;
          year = n400 * 400 + 1 + n100 * 100 + n4 * 4 + n1
      in if n1 = 4 \<or> n100 = 4 then (year - 1, 12, 31)
         else
           (let leapyear = (n1 = 3 \<and> (n4 \<noteq> 24 \<or> n100 = 3));
                month = (n + 50) div 32;
                preceding = DAYS_BEFORE_MONTH ! nat (month - 1)
                            + (if month > 2 \<and> leapyear then 1 else 0)
            in if preceding > n
               then (let month' = month - 1;
                         preceding' = preceding
                           - (DAYS_IN_MONTH ! nat (month' - 1)
                              + (if month' = 2 \<and> leapyear then 1 else 0))
                     in (year, month', n - preceding' + 1))
               else (year, month, n - preceding + 1)))"

definition digit_char :: "nat \<Rightarrow> char" where
  "digit_char d = char_of (48 + d)"

fun str_nat :: "nat \<Rightarrow> string" where
  "str_nat n = (if n < 10 then [digit_char n] else str_nat (n div 10) @ [digit_char (n mod 10)])"

definition zero_pad :: "nat \<Rightarrow> int \<Rightarrow> string" where
  "zero_pad width n =
     (let s = str_nat (nat n) in replicate (width - length s) (CHR ''0'') @ s)"

definition isoformat :: "int \<Rightarrow> string" where
  "isoformat d =
     (case ord2ymd d of (y, m, dd) \<Rightarrow> zero_pad 4 y @ ''-'' @ zero_pad 2 m @ ''-'' @ zero_pad 2 dd)"

definition BORROW_DURATION_DAYS :: int where
  "BORROW_DURATION_DAYS = 14"

section \<open>Data model\<close>

text \<open>
  The two stores hold JSON: the users store an object from username to
  \<open>{password, role}\<close>, the books store an array of book objects. \<open>borrower\<close> and
  \<open>due_date\<close> are a string or \<open>null\<close> (\<open>None\<close>); \<open>summary\<close> is a string or the
  key is missing (\<open>None\<close>). The key \<open>id\<close> of a book is the field \<open>book_id\<close>
  (\<open>id\<close> is the identity function of HOL), and where a function of the program has
  a parameter \<open>role\<close> the model calls it \<open>r\<close>.
\<close>

record user =
  password :: string
  role :: string

type_synonym users = "(string \<times> user) list"

record book =
  book_id :: int
  title :: string
  author :: string
  status :: string
  borrower :: "string option"
  due_date :: "string option"
  summary :: "string option"

datatype data = Users users | Books "book list"

definition USERS_FILE :: string where
  "USERS_FILE = ''library_users.json''"

definition BOOKS_FILE :: string where
  "BOOKS_FILE = ''library_books.json''"

section \<open>The world: files, terminal, clock\<close>

text \<open>
  A file is absent, present with JSON that decodes (\<open>Content\<close>), present with text
  that \<open>json.load\<close> rejects with \<open>JSONDecodeError\<close> (\<open>Malformed\<close>), present but
  refused by \<open>open\<close> with another \<open>OSError\<close> (\<open>Unreadable\<close>), present with bytes
  that are not text in the encoding of \<open>open\<close>, so that reading them raises
  \<open>UnicodeDecodeError\<close>, a \<open>ValueError\<close> that is not a \<open>JSONDecodeError\<close>
  (\<open>Undecodable\<close>), or seen by \<open>os.path.exists\<close> and gone when opened
  (\<open>Vanished\<close>, \<open>FileNotFoundError\<close>).
  \<open>write_fails\<close> says that opening a file for writing raises \<open>IOError\<close>.
  \<open>stdin\<close> holds the lines still to be typed, \<open>stdout\<close> what has been printed
  (headers, separators, screen clearing and sleeps are left out), \<open>today\<close> is
  \<open>date.today()\<close>.
\<close>

datatype 'a store_file =
  Absent | Vanished | Malformed | Unreadable | Undecodable | Content 'a

datatype prompt =
    AskUsername | AskPassword | AskSearchTerm | AskCheckoutId | AskReturnId
  | AskTitle | AskAuthor | AskSummary

datatype message =
    Prompt prompt
  | ErrorReading string
  | ErrorSaving string
  | Initializing string
  | Display book bool
  | NoBooks
  | TotalBooks nat
  | NoBooksToSearch
  | EmptySearchTerm
  | NoMatch string
  | FoundCount nat
  | InvalidIdFormat
  | CheckoutSuccess string
  | DueDate "string option"
  | SaveCheckoutFailed
  | CurrentlyCheckedOut string
  | ItIsDueOn "string option"
  | NoBookWithId int
  | InvalidInput
  | NoneCheckedOutLibrary
  | NoneCheckedOutUser string
  | ReturnSuccess string "string option"
  | SaveReturnFailed
  | CannotReturn "string option"
  | AlreadyAvailable string
  | NoCheckedOutBookWithId int string
  | TitleAuthorEmpty
  | DuplicateBook int
  | AddSuccess string string int
  | SaveAddFailed
  | ErrorOccurred py_error
  | UserDataMissing
  | LoginSuccess string
  | InvalidLogin nat
  | TooManyAttempts

record world =
  users_file :: "users store_file"
  books_file :: "book list store_file"
  write_fails :: bool
  stdin :: "string list"
  stdout :: "message list"
  today :: int

type_synonym 'a io = "world \<Rightarrow> (py_error + 'a) \<times> world"

definition ret :: "'a \<Rightarrow> 'a io" where
  "ret x = (\<lambda>w. (Inr x, w))"

definition raise :: "py_error \<Rightarrow> 'a io" where
  "raise e = (\<lambda>w. (Inl e, w))"

definition bind :: "'a io \<Rightarrow> ('a \<Rightarrow> 'b io) \<Rightarrow> 'b io" where
  "bind m f = (\<lambda>w. case m w of (Inl e, w') \<Rightarrow> (Inl e, w') | (Inr x, w') \<Rightarrow> f x w')"

text \<open>\<open>try: m except E: h\<close>, where \<open>handles\<close> says which errors \<open>E\<close> covers.\<close>

definition try_except :: "'a io \<Rightarrow> (py_error \<Rightarrow> bool) \<Rightarrow> (py_error \<Rightarrow> 'a io) \<Rightarrow> 'a io" where
  "try_except m handles h = (\<lambda>w.
     case m w of
       (Inl e, w') \<Rightarrow> (if handles e then h e w' else (Inl e, w'))
     | (Inr x, w') \<Rightarrow> (Inr x, w'))"

text \<open>\<open>except Exception\<close> covers every error of the model but \<open>SystemExit\<close>.\<close>

definition is_Exception :: "py_error \<Rightarrow> bool" where
  "is_Exception e = (e \<noteq> SystemExit)"

definition py_print :: "message \<Rightarrow> world \<Rightarrow> world" where
  "py_print x w = w\<lparr>stdout := stdout w @ [x]\<rparr>"

definition say :: "message \<Rightarrow> unit io" where
  "say x = (\<lambda>w. (Inr (), py_print x w))"

text \<open>\<open>input(prompt)\<close>: show the prompt, read one line, \<open>EOFError\<close> at end of input.\<close>

definition py_input :: "prompt \<Rightarrow> string io" where
  "py_input p = (\<lambda>w.
     let w' = py_print (Prompt p) w
     in case stdin w' of
          [] \<Rightarrow> (Inl EOFError, w')
        | line # rest \<Rightarrow> (Inr line, w'\<lparr>stdin := rest\<rparr>))"

section \<open>Data handling\<close>

definition file_at :: "world \<Rightarrow> string \<Rightarrow> data store_file" where
  "file_at w filename =
     (if filename = USERS_FILE then map_store_file Users (users_file w)
      else if filename = BOOKS_FILE then map_store_file Books (books_file w)
      else Absent)"

definition path_exists :: "world \<Rightarrow> string \<Rightarrow> bool" where
  "path_exists w filename = (file_at w filename \<noteq> Absent)"

definition load_data :: "string \<Rightarrow> data io" where
  "load_data filename = (\<lambda>w.
     if \<not> path_exists w filename
     then (Inr (if filename = USERS_FILE then Users [] else Books []), w)
     else case file_at w filename of
            Content d \<Rightarrow> (Inr d, w)
          | Malformed \<Rightarrow>
              (Inr (if filename = USERS_FILE then Users [] else Books []),
               py_print (ErrorReading filename) w)
          | Unreadable \<Rightarrow> (Inl OSError, w)
          | Undecodable \<Rightarrow> (Inl ValueError, w)
          | _ \<Rightarrow> (Inr (if filename = USERS_FILE then Users [] else Books []), w))"

text \<open>
  The program writes users only to the users store and books only to the books store.
\<close>

definition write_file :: "string \<Rightarrow> data \<Rightarrow> world \<Rightarrow> world" where
  "write_file filename d w =
     (case d of
        Users us \<Rightarrow> (if filename = USERS_FILE then w\<lparr>users_file := Content us\<rparr> else w)
      | Books bs \<Rightarrow> (if filename = BOOKS_FILE then w\<lparr>books_file := Content bs\<rparr> else w))"

definition save_data :: "string \<Rightarrow> data \<Rightarrow> bool io" where
  "save_data filename d = (\<lambda>w.
     if write_fails w then (Inr False, py_print (ErrorSaving filename) w)
     else (Inr True, write_file filename d w))"

text \<open>\<open>books = load_data(BOOKS_FILE)\<close> and \<open>users = load_data(USERS_FILE)\<close>.\<close>

definition load_books :: "book list io" where
  "load_books = bind (load_data BOOKS_FILE)
     (\<lambda>d. case d of Books bs \<Rightarrow> ret bs | Users _ \<Rightarrow> raise TypeError)"


section \<open>Start-up data\<close>

definition default_users :: users where
  "default_users =
     [(''admin'', \<lparr>password = ''admin123'', role = ''librarian''\<rparr>),
      (''mridul'', \<lparr>password = ''jamesbond007'', role = ''student''\<rparr>),
      (''test'', \<lparr>password = ''test'', role = ''student''\<rparr>)]"

text \<open>The argument is the due date given to the third book, five days before today.\<close>

definition default_books :: "string \<Rightarrow> book list" where
  "default_books due =
     [\<lparr>book_id = 1, title = ''1984'', author = ''George Orwell'', status = ''Available'',
       borrower = None, due_date = None,
       summary = Some ''A chilling portrait of a society under total surveillance and thought control.''\<rparr>,
      \<lparr>book_id = 2, title = ''Leonardo Da Vinci'', author = ''Walter Isacsson'',
       status = ''Available'', borrower = None, due_date = None,
       summary = Some ''An acclaimed biography exploring the life and mind of the ultimate Renaissance man, connecting his art and science.''\<rparr>,
      \<lparr>book_id = 3, title = ''Sapiens: A Brief History of Humankind'',
       author = ''Yuval Noah Harari'', status = ''Checked Out'', borrower = Some ''student1'',
       due_date = Some due,
       summary = Some ''An exploration of human history from the Stone Age to the present.''\<rparr>,
      \<lparr>book_id = 4, title = ''Dune'', author = ''Frank Herbert'', status = ''Available'',
       borrower = None, due_date = None,
       summary = Some ''Epic science fiction novel set on the desert planet Arrakis.''\<rparr>]"

text \<open>\<open>(date.today() + timedelta(days=n)).isoformat()\<close>\<close>

definition today_plus :: "int \<Rightarrow> string io" where
  "today_plus n = (\<lambda>w.
     case date_add (today w) n of
       Inl e \<Rightarrow> (Inl e, w)
     | Inr d \<Rightarrow> (Inr (isoformat d), w))"

definition initialize_data :: "unit io" where
  "initialize_data =
     bind (\<lambda>w. if \<not> path_exists w USERS_FILE
                then bind (say (Initializing USERS_FILE))
                       (\<lambda>_. bind (save_data USERS_FILE (Users default_users)) (\<lambda>_. ret ())) w
                else ret () w)
       (\<lambda>_ w. if \<not> path_exists w BOOKS_FILE
               then bind (say (Initializing BOOKS_FILE))
                      (\<lambda>_. bind (today_plus (- 5))
                        (\<lambda>due. bind (save_data BOOKS_FILE (Books (default_books due)))
                          (\<lambda>_. ret ()))) w
               else ret () w)"

section \<open>Login\<close>



section \<open>Catalog\<close>

fun display_all :: "book list \<Rightarrow> bool \<Rightarrow> unit io" where
  "display_all [] detailed = ret ()"
| "display_all (book # books) detailed =
     bind (say (Display book detailed)) (\<lambda>_. display_all books detailed)"

definition view_all_books :: "unit io" where
  "view_all_books =
     bind load_books (\<lambda>books.
       if books = [] then say NoBooks
       else bind (display_all books False) (\<lambda>_. say (TotalBooks (length books))))"

text \<open>The loop of \<open>search_books\<close> that collects \<open>results\<close>.\<close>

fun search_loop :: "string \<Rightarrow> book list \<Rightarrow> book list" where
  "search_loop query [] = []"
| "search_loop query (book # books) =
     (if str_in query (lower (title book))
         \<or> str_in query (lower (author book))
         \<or> str_in query (lower (case summary book of None \<Rightarrow> [] | Some s \<Rightarrow> s))
      then book # search_loop query books
      else search_loop query books)"

definition search_books :: "unit io" where
  "search_books =
     bind load_books (\<lambda>books.
       if books = [] then say NoBooksToSearch
       else bind (py_input AskSearchTerm) (\<lambda>line.
         let query = strip (lower line)
         in if query = [] then say EmptySearchTerm
            else let results = search_loop query books
                 in if results = [] then say (NoMatch query)
                    else bind (say (FoundCount (length results)))
                           (\<lambda>_. display_all results True)))"

section \<open>Circulation\<close>

text \<open>
  Each of \<open>checkout_book\<close>, \<open>return_book\<close> and \<open>add_book\<close> returns, as the model's
  result, the value its local list \<open>books\<close> holds when the function returns.
  In the loops over \<open>books\<close>, \<open>pre\<close> are the books already passed.
\<close>

fun checkout_loop :: "string \<Rightarrow> int \<Rightarrow> book list \<Rightarrow> book list \<Rightarrow> book list io" where
  "checkout_loop username n pre [] =
     bind (say (NoBookWithId n)) (\<lambda>_. ret pre)"
| "checkout_loop username n pre (book # rest) =
     (if book_id book = n
      then (if status book = ''Available''
            then bind (today_plus BORROW_DURATION_DAYS) (\<lambda>due.
                   let book' = book\<lparr>status := ''Checked Out'', borrower := Some username,
                                     due_date := Some due\<rparr>;
                       books = pre @ book' # rest
                   in bind (save_data BOOKS_FILE (Books books)) (\<lambda>saved.
                        if saved
                        then bind (say (CheckoutSuccess (title book')))
                               (\<lambda>_. bind (say (DueDate (due_date book'))) (\<lambda>_. ret books))
                        else bind (say SaveCheckoutFailed) (\<lambda>_. ret books)))
            else bind (say (CurrentlyCheckedOut (title book)))
                   (\<lambda>_. bind (say (ItIsDueOn (due_date book)))
                     (\<lambda>_. ret (pre @ book # rest))))
      else checkout_loop username n (pre @ [book]) rest)"

definition checkout_book :: "string \<Rightarrow> book list io" where
  "checkout_book username =
     bind load_books (\<lambda>books.
     bind view_all_books (\<lambda>_.
       try_except
         (bind (py_input AskCheckoutId) (\<lambda>line.
            let book_id_str = strip line
            in if \<not> isdigit book_id_str
               then bind (say InvalidIdFormat) (\<lambda>_. ret books)
               else bind (\<lambda>w. (py_int book_id_str, w))
                      (\<lambda>n. checkout_loop username n [] books)))
         (\<lambda>e. e = ValueError)
         (\<lambda>e. bind (say InvalidInput) (\<lambda>_. ret books))))"

text \<open>The first loop of \<open>return_book\<close>: it displays and collects \<open>borrowed_books\<close>.\<close>

fun borrowed_loop :: "string \<Rightarrow> string \<Rightarrow> book list \<Rightarrow> book list io" where
  "borrowed_loop username r [] = ret []"
| "borrowed_loop username r (book # books) =
     (if status book = ''Checked Out'' \<and> (r = ''librarian'' \<or> borrower book = Some username)
      then bind (say (Display book False))
             (\<lambda>_. bind (borrowed_loop username r books) (\<lambda>bs. ret (book # bs)))
      else borrowed_loop username r books)"

fun return_loop :: "string \<Rightarrow> string \<Rightarrow> int \<Rightarrow> book list \<Rightarrow> book list \<Rightarrow> book list io" where
  "return_loop username r n pre [] =
     bind (say (NoCheckedOutBookWithId n r)) (\<lambda>_. ret pre)"
| "return_loop username r n pre (book # rest) =
     (if book_id book = n
      then (if status book = ''Checked Out''
            then (if r = ''librarian'' \<or> borrower book = Some username
                  then (let original_borrower = borrower book;
                            book' = book\<lparr>status := ''Available'', borrower := None,
                                          due_date := None\<rparr>;
                            books = pre @ book' # rest
                        in bind (save_data BOOKS_FILE (Books books)) (\<lambda>saved.
                             if saved
                             then bind (say (ReturnSuccess (title book') original_borrower))
                                    (\<lambda>_. ret books)
                             else bind (say SaveReturnFailed) (\<lambda>_. ret books)))
                  else bind (say (CannotReturn (borrower book)))
                         (\<lambda>_. ret (pre @ book # rest)))
            else bind (say (AlreadyAvailable (title book)))
                   (\<lambda>_. ret (pre @ book # rest)))
      else return_loop username r n (pre @ [book]) rest)"

definition return_book :: "string \<Rightarrow> string \<Rightarrow> book list io" where
  "return_book username r =
     bind load_books (\<lambda>books.
     bind (borrowed_loop username r books) (\<lambda>borrowed_books.
       if borrowed_books = []
       then bind (if r = ''librarian'' then say NoneCheckedOutLibrary
                  else say (NoneCheckedOutUser username))
              (\<lambda>_. ret books)
       else try_except
              (bind (py_input AskReturnId) (\<lambda>line.
                 let book_id_str = strip line
                 in if \<not> isdigit book_id_str
                    then bind (say InvalidIdFormat) (\<lambda>_. ret books)
                    else bind (\<lambda>w. (py_int book_id_str, w))
                           (\<lambda>n. return_loop username r n [] books)))
              (\<lambda>e. e = ValueError)
              (\<lambda>e. bind (say InvalidInput) (\<lambda>_. ret books))))"

section \<open>Librarian functions\<close>

text \<open>\<open>max\<close> over a non-empty sequence, scanning from the first element \<open>m\<close>.\<close>

fun py_max :: "int \<Rightarrow> int list \<Rightarrow> int" where
  "py_max m [] = m"
| "py_max m (x # xs) = py_max (if x > m then x else m) xs"

definition next_id :: "book list \<Rightarrow> int" where
  "next_id books =
     (case books of [] \<Rightarrow> 1 | b # bs \<Rightarrow> py_max (book_id b) (map book_id bs) + 1)"

text \<open>The duplicate check: the first book with the same title and author, if any.\<close>

fun duplicate_loop :: "string \<Rightarrow> string \<Rightarrow> book list \<Rightarrow> book option" where
  "duplicate_loop t a [] = None"
| "duplicate_loop t a (book # books) =
     (if lower (title book) = lower t \<and> lower (author book) = lower a then Some book
      else duplicate_loop t a books)"

definition add_book :: "book list io" where
  "add_book =
     bind load_books (\<lambda>books.
       try_except
         (let new_id = next_id books
          in bind (py_input AskTitle) (\<lambda>line1.
             bind (py_input AskAuthor) (\<lambda>line2.
             bind (py_input AskSummary) (\<lambda>line3.
               let t = strip line1; a = strip line2; s = strip line3
               in if t = [] \<or> a = []
                  then bind (say TitleAuthorEmpty) (\<lambda>_. ret books)
                  else case duplicate_loop t a books of
                         Some book \<Rightarrow> bind (say (DuplicateBook (book_id book))) (\<lambda>_. ret books)
                       | None \<Rightarrow>
                           (let new_book = \<lparr>book_id = new_id, title = t, author = a,
                                             status = ''Available'', borrower = None,
                                             due_date = None, summary = Some s\<rparr>;
                                books' = books @ [new_book]
                            in bind (save_data BOOKS_FILE (Books books')) (\<lambda>saved.
                                 if saved
                                 then bind (say (AddSuccess t a new_id)) (\<lambda>_. ret books')
                                 else bind (say SaveAddFailed) (\<lambda>_. ret books')))))))
         is_Exception
         (\<lambda>e. bind (say (ErrorOccurred e)) (\<lambda>_. ret books)))"

section \<open>Properties stated by the specification\<close>

text \<open>
  The matching rule of search as the specification words it: the lowercased query is
  a substring of the lowercased title, author or summary, the summary being empty
  when absent.
\<close>

definition spec_search_results :: "string \<Rightarrow> book list \<Rightarrow> book list" where
  "spec_search_results query books =
     filter (\<lambda>b. sublist (lower query) (lower (title b))
               \<or> sublist (lower query) (lower (author b))
               \<or> sublist (lower query) (lower (case summary b of None \<Rightarrow> [] | Some s \<Rightarrow> s)))
       books"

text \<open>
  The invariant of a book record:
  \<open>status == Available \<Longleftrightarrow> borrower == null \<Longleftrightarrow> due_date == null\<close>.
\<close>

definition book_invariant :: "book \<Rightarrow> bool" where
  "book_invariant b =
     (((status b = ''Available'') = (borrower b = None))
      \<and> ((borrower b = None) = (due_date b = None)))"

text \<open>
  The visible subset of \<open>return_book\<close> as the specification words it: a librarian
  sees every checked-out book, anyone else the checked-out books they borrowed.
\<close>

definition visible_subset :: "string \<Rightarrow> string \<Rightarrow> book list \<Rightarrow> book list" where
  "visible_subset username r books =
     (if r = ''librarian'' then filter (\<lambda>b. status b = ''Checked Out'') books
      else filter (\<lambda>b. status b = ''Checked Out'' \<and> borrower b = Some username) books)"

text \<open>What \<open>view_all_books\<close> prints for a catalog.\<close>

definition listing :: "book list \<Rightarrow> message list" where
  "listing books =
     (if books = [] then [NoBooks]
      else map (\<lambda>b. Display b False) books @ [TotalBooks (length books)])"

text \<open>
  A stored book matches an entered title and author case-insensitively.
\<close>

definition same_title_author :: "string \<Rightarrow> string \<Rightarrow> book \<Rightarrow> bool" where
  "same_title_author t a b = (lower (title b) = lower t \<and> lower (author b) = lower a)"



text \<open>
  The invariant on the books store (a store that is absent or does not decode loads as
  the empty collection), and on the result of an operation: \<open>keeps_invariant m Q\<close>
  says that \<open>m\<close>, started in a world whose store has the invariant, leaves a world
  whose store has it, and that a result it returns satisfies \<open>Q\<close>.
\<close>

definition store_invariant :: "world \<Rightarrow> bool" where
  "store_invariant w =
     (case books_file w of Content bs \<Rightarrow> list_all book_invariant bs | _ \<Rightarrow> True)"

definition keeps_invariant :: "'a io \<Rightarrow> ('a \<Rightarrow> bool) \<Rightarrow> bool" where
  "keeps_invariant m Q =
     (\<forall>w. store_invariant w \<longrightarrow>
        store_invariant (snd (m w)) \<and> (case fst (m w) of Inl e \<Rightarrow> True | Inr x \<Rightarrow> Q x))"

section \<open>Example states\<close>

text \<open>
  The stores as \<open>initialize_data\<close> writes them on 2026-11-03 (ordinal 739923), with
  nothing typed and nothing printed yet.
\<close>

definition example_world :: world where
  "example_world =
     \<lparr>users_file = Content default_users,
      books_file = Content (default_books ''2026-10-29''),
      write_fails = False, stdin = [], stdout = [], today = 739923\<rparr>"

text \<open>The same state after the student \<open>test\<close> has checked out Dune.\<close>

definition loaned_books :: "book list" where
  "loaned_books =
     take 3 (default_books ''2026-10-29'') @
     [(default_books ''2026-10-29'' ! 3)
        \<lparr>status := ''Checked Out'', borrower := Some ''test'',
          due_date := Some ''2026-11-17''\<rparr>]"

definition loaned_world :: world where
  "loaned_world = example_world\<lparr>books_file := Content loaned_books\<rparr>"

section \<open>Running the primitives\<close>

lemma files_distinct: "USERS_FILE \<noteq> BOOKS_FILE" "BOOKS_FILE \<noteq> USERS_FILE"
  by (simp_all add: USERS_FILE_def BOOKS_FILE_def)

lemma bind_say: "bind (say x) f w = f () (py_print x w)"
  by (simp add: bind_def say_def)

lemma py_print_simps [simp]:
  "stdout (py_print x w) = stdout w @ [x]"
  "stdin (py_print x w) = stdin w"
  "users_file (py_print x w) = users_file w"
  "books_file (py_print x w) = books_file w"
  "write_fails (py_print x w) = write_fails w"
  "today (py_print x w) = today w"
  by (simp_all add: py_print_def)

lemma load_books_run:
  "load_books w =
     (case books_file w of
        Content bs \<Rightarrow> (Inr bs, w)
      | Malformed \<Rightarrow> (Inr [], py_print (ErrorReading BOOKS_FILE) w)
      | Unreadable \<Rightarrow> (Inl OSError, w)
      | Undecodable \<Rightarrow> (Inl ValueError, w)
      | _ \<Rightarrow> (Inr [], w))"
  by (simp add: load_books_def load_data_def path_exists_def file_at_def files_distinct
        bind_def ret_def split: store_file.splits)


text \<open>
  The failures \<open>load_data\<close> handles. Loading a store whose file is absent, or whose
  contents make \<open>json.load\<close> raise \<open>JSONDecodeError\<close>, does not raise: it returns
  the empty mapping for the users store and the empty list for the books store; for
  malformed contents it prints the warning first.
\<close>

theorem load_data_empty_default:
  "(users_file w = Absent \<longrightarrow> load_data USERS_FILE w = (Inr (Users []), w)) \<and>
   (users_file w = Malformed \<longrightarrow>
      load_data USERS_FILE w = (Inr (Users []), py_print (ErrorReading USERS_FILE) w)) \<and>
   (books_file w = Absent \<longrightarrow> load_data BOOKS_FILE w = (Inr (Books []), w)) \<and>
   (books_file w = Malformed \<longrightarrow>
      load_data BOOKS_FILE w = (Inr (Books []), py_print (ErrorReading BOOKS_FILE) w))"
  by (simp add: load_data_def path_exists_def file_at_def files_distinct)

theorem load_data_empty_default_witness:
  "users_file (example_world\<lparr>users_file := Absent, books_file := Malformed\<rparr>) = Absent \<and>
   books_file (example_world\<lparr>users_file := Absent, books_file := Malformed\<rparr>) = Malformed \<and>
   load_data USERS_FILE (example_world\<lparr>users_file := Absent, books_file := Malformed\<rparr>)
     = (Inr (Users []), example_world\<lparr>users_file := Absent, books_file := Malformed\<rparr>) \<and>
   load_data BOOKS_FILE (example_world\<lparr>users_file := Absent, books_file := Malformed\<rparr>)
     = (Inr (Books []),
        py_print (ErrorReading BOOKS_FILE)
          (example_world\<lparr>users_file := Absent, books_file := Malformed\<rparr>)) \<and>
   users_file (example_world\<lparr>users_file := Malformed, books_file := Absent\<rparr>) = Malformed \<and>
   books_file (example_world\<lparr>users_file := Malformed, books_file := Absent\<rparr>) = Absent \<and>
   load_data USERS_FILE (example_world\<lparr>users_file := Malformed, books_file := Absent\<rparr>)
     = (Inr (Users []),
        py_print (ErrorReading USERS_FILE)
          (example_world\<lparr>users_file := Malformed, books_file := Absent\<rparr>)) \<and>
   load_data BOOKS_FILE (example_world\<lparr>users_file := Malformed, books_file := Absent\<rparr>)
     = (Inr (Books []), example_world\<lparr>users_file := Malformed, books_file := Absent\<rparr>)"
  using load_data_empty_default [of "example_world\<lparr>users_file := Absent, books_file := Malformed\<rparr>"]
        load_data_empty_default [of "example_world\<lparr>users_file := Malformed, books_file := Absent\<rparr>"]
  by simp

text \<open>
  C9. The claim has \<open>load_data\<close> return the empty default, instead of raising,
  whenever the contents of the store file fail to deserialize. The handlers of
  \<open>load_data\<close> cover \<open>JSONDecodeError\<close> and \<open>FileNotFoundError\<close> only: for a store
  whose bytes do not decode as text, reading raises \<open>UnicodeDecodeError\<close>, which
  escapes from \<open>load_data\<close> for either store, no default is returned and no warning
  is printed.
\<close>

theorem load_data_undecodable_raises:
  "load_data BOOKS_FILE (example_world\<lparr>books_file := Undecodable\<rparr>)
     = (Inl ValueError, example_world\<lparr>books_file := Undecodable\<rparr>) \<and>
   load_data USERS_FILE (example_world\<lparr>users_file := Undecodable\<rparr>)
     = (Inl ValueError, example_world\<lparr>users_file := Undecodable\<rparr>)"
  by (simp add: load_data_def path_exists_def file_at_def files_distinct example_world_def)

text \<open>
  C10. When the loaded books collection is empty, \<open>search_books\<close> prints the
  "no books to search" message and returns: the terminal input is not read (no prompt
  is printed), nothing is matched, and the empty-query error is never printed, whatever
  is waiting on the input.
\<close>

theorem search_books_empty_catalog:
  assumes "fst (load_books w) = Inr []"
  shows "search_books w =
           (Inr (), w\<lparr>stdout := stdout w
                        @ (if books_file w = Malformed then [ErrorReading BOOKS_FILE] else [])
                        @ [NoBooksToSearch]\<rparr>)"
  using assms
  by (auto simp add: search_books_def load_books_run bind_def say_def py_print_def
        split: store_file.splits)

theorem search_books_empty_catalog_witness:
  "fst (load_books (example_world\<lparr>books_file := Content [], stdin := ['''', ''dune'']\<rparr>)) = Inr [] \<and>
   search_books (example_world\<lparr>books_file := Content [], stdin := ['''', ''dune'']\<rparr>)
     = (Inr (), example_world\<lparr>books_file := Content [], stdin := ['''', ''dune''],
                                stdout := [NoBooksToSearch]\<rparr>)"
  using search_books_empty_catalog [of "example_world\<lparr>books_file := Content [], stdin := ['''', ''dune'']\<rparr>"]
  by (simp add: load_books_run example_world_def)


section \<open>Strings\<close>

lemma str_in_sublist: "str_in q s = sublist q s"
  by (induction s) (simp_all add: sublist_Cons_right)

lemma of_char_lower_char:
  "(of_char (lower_char c) :: nat) =
     (let n = of_char c
      in if (65 \<le> n \<and> n \<le> 90) \<or> (192 \<le> n \<and> n \<le> 214) \<or> (216 \<le> n \<and> n \<le> 222)
         then n + 32 else n)"
proof -
  have "(of_char c :: nat) < 256" by simp
  then show ?thesis
    by (auto simp add: lower_char_def Let_def)
qed

lemma isspace_lower_char: "isspace (lower_char c) = isspace c"
  unfolding isspace_def of_char_lower_char Let_def by auto

lemma dropWhile_isspace_lower:
  "dropWhile isspace (lower s) = lower (dropWhile isspace s)"
  by (induction s) (simp_all add: lower_def isspace_lower_char)

lemma lower_rev: "lower (rev s) = rev (lower s)"
  by (simp add: lower_def rev_map)

lemma strip_lower: "strip (lower s) = lower (strip s)"
  by (simp add: strip_def lower_rev [symmetric] dropWhile_isspace_lower)

lemma lower_Nil_iff: "lower s = [] \<longleftrightarrow> s = []"
  by (simp add: lower_def)

section \<open>Search\<close>

lemma search_loop_spec: "search_loop (lower q) books = spec_search_results q books"
  by (induction books) (simp_all add: spec_search_results_def str_in_sublist)

lemma display_all_run:
  "display_all bs d w = (Inr (), w\<lparr>stdout := stdout w @ map (\<lambda>b. Display b d) bs\<rparr>)"
  by (induction bs arbitrary: w) (simp_all add: ret_def bind_say py_print_def)

lemma py_input_run:
  "py_input p w =
     (case stdin w of
        [] \<Rightarrow> (Inl EOFError, py_print (Prompt p) w)
      | line # rest \<Rightarrow> (Inr line, w\<lparr>stdin := rest, stdout := stdout w @ [Prompt p]\<rparr>))"
  by (simp add: py_input_def Let_def py_print_def split: list.splits)

text \<open>
  C7, as amended. With a non-empty catalog, \<open>search_books\<close> reads one line; the query
  is that line stripped of surrounding whitespace. An empty query is rejected with the
  empty-search-term error. Otherwise the books displayed are exactly those, in storage
  order, for which the lowercased query is a substring of the lowercased title, author
  or summary (an absent summary counting as empty).
\<close>

theorem search_books_results:
  assumes "books_file w = Content books" and "books \<noteq> []" and "stdin w = line # rest"
  shows "search_books w =
           (Inr (),
            w\<lparr>stdin := rest,
              stdout := stdout w @ Prompt AskSearchTerm #
                (if strip line = [] then [EmptySearchTerm]
                 else if spec_search_results (strip line) books = []
                      then [NoMatch (lower (strip line))]
                      else FoundCount (length (spec_search_results (strip line) books)) #
                           map (\<lambda>b. Display b True) (spec_search_results (strip line) books))\<rparr>)"
  using assms
  by (simp add: search_books_def load_books_run bind_def py_input_run Let_def strip_lower lower_Nil_iff search_loop_spec say_def
        py_print_def display_all_run)


lemmas string_eval =
  lower_def lower_char_def strip_def isspace_def isdigit_def isdigit_char_def
  isdecimal_char_def py_int_def char_of_def bit_Suc_0_iff Let_def

theorem search_books_results_witness:
  "books_file (example_world\<lparr>stdin := [''  DUNE '']\<rparr>) = Content (default_books ''2026-10-29'') \<and>
   default_books ''2026-10-29'' \<noteq> [] \<and>
   stdin (example_world\<lparr>stdin := [''  DUNE '']\<rparr>) = [''  DUNE ''] \<and>
   search_books (example_world\<lparr>stdin := [''  DUNE '']\<rparr>)
     = (Inr (), example_world\<lparr>stdin := [],
          stdout := [Prompt AskSearchTerm, FoundCount 1,
                     Display (default_books ''2026-10-29'' ! 3) True]\<rparr>)"
  using search_books_results [of "example_world\<lparr>stdin := [''  DUNE '']\<rparr>"
          "default_books ''2026-10-29''" "''  DUNE ''" "[]"]
  by (simp add: example_world_def default_books_def spec_search_results_def string_eval
        sublist_code)

text \<open>
  The claim C7 as stated, on the line typed: for the line \<open>''  DUNE ''\<close> the
  lowercased line is a substring of no title, author or summary of the start-up
  catalog, yet \<open>search_books\<close> finds and displays the book Dune.
\<close>

theorem search_books_untrimmed_counterexample:
  "stdout (snd (search_books (example_world\<lparr>stdin := [''  DUNE '']\<rparr>)))
     = [Prompt AskSearchTerm, FoundCount 1, Display (default_books ''2026-10-29'' ! 3) True] \<and>
   spec_search_results ''  DUNE '' (default_books ''2026-10-29'') = []"
  by (simp add: search_books_def load_books_run bind_def ret_def py_input_run say_def py_print_def
        display_all_run example_world_def default_books_def spec_search_results_def
        str_in_sublist string_eval sublist_code)

section \<open>Login\<close>






section \<open>Checkout\<close>

lemma view_all_books_run:
  "books_file w = Content books \<Longrightarrow>
   view_all_books w = (Inr (), w\<lparr>stdout := stdout w @ listing books\<rparr>)"
  by (simp add: view_all_books_def load_books_run bind_def say_def py_print_def
        display_all_run listing_def)

lemma int_digits_decimal:
  "int_digits acc s = Inr n \<Longrightarrow> list_all isdecimal_char s"
  by (induction s arbitrary: acc) (auto split: if_splits)

lemma py_int_isdigit: "py_int s = Inr n \<Longrightarrow> isdigit s"
proof -
  assume a: "py_int s = Inr n"
  then have ne: "s \<noteq> []"
    by (auto simp add: py_int_def split: if_splits)
  from a have "int_digits 0 s = Inr n"
    by (auto simp add: py_int_def split: if_splits)
  then have "list_all isdecimal_char s"
    by (rule int_digits_decimal)
  then have "list_all isdigit_char s"
    by (simp add: list_all_iff isdigit_char_def)
  with ne show ?thesis by (simp add: isdigit_def)
qed

text \<open>
  The loops of \<open>checkout_book\<close> and \<open>return_book\<close> stop at the first book with the
  entered id. When the ids of a collection are unique, as the data model has them, any
  book with that id is the first one.
\<close>

lemma first_with_id:
  assumes "distinct (map book_id books)" and "b \<in> set books" and "book_id b = n"
  shows "\<exists>pre post. books = pre @ b # post \<and> (\<forall>x \<in> set pre. book_id x \<noteq> n)"
proof -
  from assms(2) obtain pre post where split: "books = pre @ b # post"
    by (auto simp add: in_set_conv_decomp)
  with assms(1) have "book_id b \<notin> book_id ` set pre"
    by auto
  with assms(3) have "\<forall>x \<in> set pre. book_id x \<noteq> n"
    by (metis imageI)
  with split show ?thesis by blast
qed

lemma checkout_loop_skip:
  "\<forall>x \<in> set xs. book_id x \<noteq> n \<Longrightarrow>
   checkout_loop username n pre (xs @ rest) = checkout_loop username n (pre @ xs) rest"
  by (induction xs arbitrary: pre) simp_all

lemma checkout_book_run:
  assumes "books_file w = Content books" and "stdin w = line # rest"
    and "py_int (strip line) = Inr n"
  shows "checkout_book username w =
           try_except (checkout_loop username n [] books) (\<lambda>e. e = ValueError)
             (\<lambda>e. bind (say InvalidInput) (\<lambda>_. ret books))
             (w\<lparr>stdin := rest, stdout := stdout w @ listing books @ [Prompt AskCheckoutId]\<rparr>)"
  using assms py_int_isdigit [OF assms(3)]
  by (simp add: checkout_book_def load_books_run bind_def view_all_books_run py_input_run
        try_except_def Let_def)

lemma int_digits_error: "int_digits acc s = Inl e \<Longrightarrow> e = ValueError"
  by (induction s arbitrary: acc) (auto split: if_splits)

text \<open>
  A line of digits that \<open>int\<close> refuses, for a superscript digit or for more than 4300
  digits, is answered with the invalid-input message of the \<open>ValueError\<close> handler;
  nothing else happens.
\<close>

lemma checkout_book_invalid_input:
  assumes "books_file w = Content books" and "stdin w = line # rest"
    and "isdigit (strip line)" and "py_int (strip line) = Inl e"
  shows "checkout_book username w =
           (Inr books,
            w\<lparr>stdin := rest,
              stdout := stdout w @ listing books @ [Prompt AskCheckoutId, InvalidInput]\<rparr>)"
proof -
  from assms(4) have "e = ValueError"
    by (auto simp add: py_int_def split: if_splits dest: int_digits_error)
  with assms show ?thesis
    by (simp add: checkout_book_def load_books_run bind_def view_all_books_run py_input_run
          try_except_def Let_def say_def ret_def py_print_def)
qed

text \<open>
  C3. When the first book with the entered id is checked out, \<open>checkout_book\<close>
  leaves the collection as it was, in memory and in the store (nothing is saved), and
  reports that the book is checked out together with its current due date.
\<close>

theorem checkout_unavailable_unchanged:
  assumes "books_file w = Content (pre @ b # post)"
    and "\<forall>x \<in> set pre. book_id x \<noteq> n" and "book_id b = n"
    and "status b = ''Checked Out''"
    and "stdin w = line # rest" and "py_int (strip line) = Inr n"
  shows "checkout_book username w =
           (Inr (pre @ b # post),
            w\<lparr>stdin := rest,
              stdout := stdout w @ listing (pre @ b # post) @
                [Prompt AskCheckoutId, CurrentlyCheckedOut (title b), ItIsDueOn (due_date b)]\<rparr>)"
proof -
  have "checkout_loop username n [] (pre @ b # post) = checkout_loop username n pre (b # post)"
    using checkout_loop_skip [OF assms(2), of username "[]" "b # post"] by simp
  then show ?thesis
    using assms
    by (simp add: checkout_book_run [OF assms(1,5,6)] try_except_def bind_def say_def
          ret_def py_print_def)
qed

text \<open>
  C2. When the first book with the entered id is available, \<open>checkout_book\<close> by
  \<open>username\<close> sets its status to checked out, its borrower to \<open>username\<close> and its
  due date to the ISO string of today plus 14 days, every other book unchanged, and
  saves the updated collection: the store holds it when the write succeeds, and the
  failure is reported when it does not. Today plus 14 days is taken to be a date
  \<open>datetime\<close> can hold.
\<close>

theorem checkout_available:
  assumes "books_file w = Content (pre @ b # post)"
    and "\<forall>x \<in> set pre. book_id x \<noteq> n" and "book_id b = n"
    and "status b = ''Available''"
    and "stdin w = line # rest" and "py_int (strip line) = Inr n"
    and "1 \<le> today w" and "today w + 14 \<le> MAXORDINAL"
  shows "checkout_book username w =
           (let due = isoformat (today w + 14);
                books' = pre @ b\<lparr>status := ''Checked Out'', borrower := Some username,
                                   due_date := Some due\<rparr> # post
            in (Inr books',
                if write_fails w
                then w\<lparr>stdin := rest,
                       stdout := stdout w @ listing (pre @ b # post) @
                         [Prompt AskCheckoutId, ErrorSaving BOOKS_FILE, SaveCheckoutFailed]\<rparr>
                else w\<lparr>books_file := Content books', stdin := rest,
                       stdout := stdout w @ listing (pre @ b # post) @
                         [Prompt AskCheckoutId, CheckoutSuccess (title b), DueDate (Some due)]\<rparr>))"
proof -
  have "checkout_loop username n [] (pre @ b # post) = checkout_loop username n pre (b # post)"
    using checkout_loop_skip [OF assms(2), of username "[]" "b # post"] by simp
  then show ?thesis
    using assms
    by (simp add: checkout_book_run [OF assms(1,5,6)] try_except_def bind_def say_def
          ret_def py_print_def today_plus_def date_add_def BORROW_DURATION_DAYS_def
          save_data_def write_file_def Let_def)
qed


theorem checkout_unavailable_unchanged_witness:
  "books_file (example_world\<lparr>stdin := ['' 3'', ''y'']\<rparr>)
     = Content (take 2 (default_books ''2026-10-29'') @ (default_books ''2026-10-29'' ! 2)
                # drop 3 (default_books ''2026-10-29'')) \<and>
   map book_id (take 2 (default_books ''2026-10-29'')) = [1, 2] \<and>
   book_id (default_books ''2026-10-29'' ! 2) = 3 \<and>
   status (default_books ''2026-10-29'' ! 2) = ''Checked Out'' \<and>
   stdin (example_world\<lparr>stdin := ['' 3'', ''y'']\<rparr>) = ['' 3'', ''y''] \<and>
   py_int (strip '' 3'') = Inr 3 \<and>
   checkout_book ''test'' (example_world\<lparr>stdin := ['' 3'', ''y'']\<rparr>)
     = (Inr (default_books ''2026-10-29''),
        example_world\<lparr>stdin := [''y''],
          stdout := listing (default_books ''2026-10-29'') @
            [Prompt AskCheckoutId,
             CurrentlyCheckedOut ''Sapiens: A Brief History of Humankind'',
             ItIsDueOn (Some ''2026-10-29'')]\<rparr>)"
  using checkout_unavailable_unchanged
          [of "example_world\<lparr>stdin := ['' 3'', ''y'']\<rparr>" "take 2 (default_books ''2026-10-29'')"
              "default_books ''2026-10-29'' ! 2" "drop 3 (default_books ''2026-10-29'')" 3
              "'' 3''" "[''y'']" "''test''"]
  by (simp add: example_world_def default_books_def string_eval)

theorem checkout_available_witness:
  "books_file (example_world\<lparr>stdin := [''004 '']\<rparr>)
     = Content (take 3 (default_books ''2026-10-29'') @ (default_books ''2026-10-29'' ! 3) # []) \<and>
   map book_id (take 3 (default_books ''2026-10-29'')) = [1, 2, 3] \<and>
   book_id (default_books ''2026-10-29'' ! 3) = 4 \<and>
   status (default_books ''2026-10-29'' ! 3) = ''Available'' \<and>
   stdin (example_world\<lparr>stdin := [''004 '']\<rparr>) = [''004 ''] \<and>
   py_int (strip ''004 '') = Inr 4 \<and>
   1 \<le> today (example_world\<lparr>stdin := [''004 '']\<rparr>) \<and>
   today (example_world\<lparr>stdin := [''004 '']\<rparr>) + 14 \<le> MAXORDINAL \<and>
   isoformat (today (example_world\<lparr>stdin := [''004 '']\<rparr>) + 14) = ''2026-11-17'' \<and>
   checkout_book ''alice'' (example_world\<lparr>stdin := [''004 '']\<rparr>)
     = (Inr (take 3 (default_books ''2026-10-29'') @
             [(default_books ''2026-10-29'' ! 3)
                \<lparr>status := ''Checked Out'', borrower := Some ''alice'',
                  due_date := Some ''2026-11-17''\<rparr>]),
        example_world
          \<lparr>books_file := Content (take 3 (default_books ''2026-10-29'') @
             [(default_books ''2026-10-29'' ! 3)
                \<lparr>status := ''Checked Out'', borrower := Some ''alice'',
                  due_date := Some ''2026-11-17''\<rparr>]),
           stdin := [],
           stdout := listing (default_books ''2026-10-29'') @
             [Prompt AskCheckoutId, CheckoutSuccess ''Dune'', DueDate (Some ''2026-11-17'')]\<rparr>)"
  using checkout_available
          [of "example_world\<lparr>stdin := [''004 '']\<rparr>" "take 3 (default_books ''2026-10-29'')"
              "default_books ''2026-10-29'' ! 3" "[]" 4 "''004 ''" "[]" "''alice''"]
  by (simp add: example_world_def default_books_def string_eval MAXORDINAL_def
        isoformat_def ord2ymd_def zero_pad_def digit_char_def DAYS_BEFORE_MONTH_def
        DAYS_IN_MONTH_def)

section \<open>Return\<close>

lemma borrowed_loop_run:
  "borrowed_loop username r books w =
     (Inr (visible_subset username r books),
      w\<lparr>stdout := stdout w @ map (\<lambda>b. Display b False) (visible_subset username r books)\<rparr>)"
proof (induction books arbitrary: w)
  case Nil
  show ?case by (simp add: ret_def visible_subset_def)
next
  case (Cons b books)
  show ?case
    by (simp add: Cons.IH bind_def say_def ret_def py_print_def visible_subset_def)
qed

lemma return_loop_skip:
  "\<forall>x \<in> set xs. book_id x \<noteq> n \<Longrightarrow>
   return_loop username r n pre (xs @ rest) = return_loop username r n (pre @ xs) rest"
  by (induction xs arbitrary: pre) simp_all

lemma return_book_run:
  assumes "books_file w = Content books" and "visible_subset username r books \<noteq> []"
    and "stdin w = line # rest" and "py_int (strip line) = Inr n"
  shows "return_book username r w =
           try_except (return_loop username r n [] books) (\<lambda>e. e = ValueError)
             (\<lambda>e. bind (say InvalidInput) (\<lambda>_. ret books))
             (w\<lparr>stdin := rest,
                stdout := stdout w @
                  map (\<lambda>b. Display b False) (visible_subset username r books) @
                  [Prompt AskReturnId]\<rparr>)"
  using assms py_int_isdigit [OF assms(4)]
  by (simp add: return_book_def load_books_run bind_def borrowed_loop_run py_input_run
        try_except_def Let_def)


text \<open>
  C4, as amended. Let the first book with the entered id be checked out. If the caller
  is a librarian or the book's borrower, \<open>return_book\<close> sets its status to available,
  clears borrower and due date, leaves the other books as they were and saves the
  collection (the store holds it when the write succeeds, the failure is reported when
  it does not). If the caller is not a librarian and not the borrower (and has a
  checked-out book of their own, so that an id is asked for), the collection is
  unchanged in memory and in the store and the refusal names the book's borrower.
\<close>

theorem return_checked_out:
  assumes "books_file w = Content (pre @ b # post)"
    and "\<forall>x \<in> set pre. book_id x \<noteq> n" and "book_id b = n"
    and "status b = ''Checked Out''"
    and "stdin w = line # rest" and "py_int (strip line) = Inr n"
  shows "(r = ''librarian'' \<or> borrower b = Some username \<longrightarrow>
            return_book username r w =
              (let books' = pre @ b\<lparr>status := ''Available'', borrower := None,
                                      due_date := None\<rparr> # post;
                   shown = map (\<lambda>x. Display x False)
                             (visible_subset username r (pre @ b # post))
               in (Inr books',
                   if write_fails w
                   then w\<lparr>stdin := rest,
                          stdout := stdout w @ shown @
                            [Prompt AskReturnId, ErrorSaving BOOKS_FILE, SaveReturnFailed]\<rparr>
                   else w\<lparr>books_file := Content books', stdin := rest,
                          stdout := stdout w @ shown @
                            [Prompt AskReturnId, ReturnSuccess (title b) (borrower b)]\<rparr>))) \<and>
         (r \<noteq> ''librarian'' \<and> borrower b \<noteq> Some username \<and>
          visible_subset username r (pre @ b # post) \<noteq> [] \<longrightarrow>
            return_book username r w =
              (Inr (pre @ b # post),
               w\<lparr>stdin := rest,
                 stdout := stdout w @
                   map (\<lambda>x. Display x False) (visible_subset username r (pre @ b # post)) @
                   [Prompt AskReturnId, CannotReturn (borrower b)]\<rparr>))"
proof -
  have skip: "return_loop username r n [] (pre @ b # post)
                = return_loop username r n pre (b # post)"
    using return_loop_skip [OF assms(2), of username r "[]" "b # post"] by simp
  have allowed: "r = ''librarian'' \<or> borrower b = Some username \<Longrightarrow>
                 visible_subset username r (pre @ b # post) \<noteq> []"
    using assms(4) by (auto simp add: visible_subset_def)
  show ?thesis
  proof (intro conjI impI)
    assume a: "r = ''librarian'' \<or> borrower b = Some username"
    show "return_book username r w =
              (let books' = pre @ b\<lparr>status := ''Available'', borrower := None,
                                      due_date := None\<rparr> # post;
                   shown = map (\<lambda>x. Display x False)
                             (visible_subset username r (pre @ b # post))
               in (Inr books',
                   if write_fails w
                   then w\<lparr>stdin := rest,
                          stdout := stdout w @ shown @
                            [Prompt AskReturnId, ErrorSaving BOOKS_FILE, SaveReturnFailed]\<rparr>
                   else w\<lparr>books_file := Content books', stdin := rest,
                          stdout := stdout w @ shown @
                            [Prompt AskReturnId, ReturnSuccess (title b) (borrower b)]\<rparr>))"
      using a assms(3,4) skip
      by (simp add: return_book_run [OF assms(1) allowed [OF a] assms(5,6)] try_except_def
            bind_def say_def ret_def py_print_def save_data_def write_file_def Let_def)
  next
    assume d: "r \<noteq> ''librarian'' \<and> borrower b \<noteq> Some username \<and>
               visible_subset username r (pre @ b # post) \<noteq> []"
    then have v: "visible_subset username r (pre @ b # post) \<noteq> []" by simp
    show "return_book username r w =
              (Inr (pre @ b # post),
               w\<lparr>stdin := rest,
                 stdout := stdout w @
                   map (\<lambda>x. Display x False) (visible_subset username r (pre @ b # post)) @
                   [Prompt AskReturnId, CannotReturn (borrower b)]\<rparr>)"
      using d assms(3,4) skip
      by (simp add: return_book_run [OF assms(1) v assms(5,6)] try_except_def
            bind_def say_def ret_def py_print_def)
  qed
qed



theorem return_checked_out_witness:
  "books_file (example_world\<lparr>stdin := [''3'']\<rparr>)
     = Content (take 2 (default_books ''2026-10-29'') @ (default_books ''2026-10-29'' ! 2)
                # drop 3 (default_books ''2026-10-29'')) \<and>
   books_file (loaned_world\<lparr>stdin := [''3'']\<rparr>)
     = Content (take 2 loaned_books @ (loaned_books ! 2) # drop 3 loaned_books) \<and>
   map book_id (take 2 (default_books ''2026-10-29'')) = [1, 2] \<and>
   map book_id (take 2 loaned_books) = [1, 2] \<and>
   book_id (default_books ''2026-10-29'' ! 2) = 3 \<and>
   book_id (loaned_books ! 2) = 3 \<and>
   status (default_books ''2026-10-29'' ! 2) = ''Checked Out'' \<and>
   status (loaned_books ! 2) = ''Checked Out'' \<and>
   borrower (loaned_books ! 2) = Some ''student1'' \<and>
   py_int (strip ''3'') = Inr 3 \<and>
   visible_subset ''test'' ''student'' loaned_books = [loaned_books ! 3] \<and>
   return_book ''admin'' ''librarian'' (example_world\<lparr>stdin := [''3'']\<rparr>)
     = (Inr (take 2 (default_books ''2026-10-29'') @
             (default_books ''2026-10-29'' ! 2)
               \<lparr>status := ''Available'', borrower := None, due_date := None\<rparr>
             # drop 3 (default_books ''2026-10-29'')),
        example_world
          \<lparr>books_file := Content (take 2 (default_books ''2026-10-29'') @
             (default_books ''2026-10-29'' ! 2)
               \<lparr>status := ''Available'', borrower := None, due_date := None\<rparr>
             # drop 3 (default_books ''2026-10-29'')),
           stdin := [],
           stdout := [Display (default_books ''2026-10-29'' ! 2) False, Prompt AskReturnId,
                      ReturnSuccess ''Sapiens: A Brief History of Humankind''
                        (Some ''student1'')]\<rparr>) \<and>
   return_book ''test'' ''student'' (loaned_world\<lparr>stdin := [''3'']\<rparr>)
     = (Inr loaned_books,
        loaned_world\<lparr>stdin := [],
          stdout := [Display (loaned_books ! 3) False, Prompt AskReturnId,
                     CannotReturn (Some ''student1'')]\<rparr>)"
  using return_checked_out
          [of "example_world\<lparr>stdin := [''3'']\<rparr>" "take 2 (default_books ''2026-10-29'')"
              "default_books ''2026-10-29'' ! 2" "drop 3 (default_books ''2026-10-29'')" 3
              "''3''" "[]" "''librarian''" "''admin''"]
        return_checked_out
          [of "loaned_world\<lparr>stdin := [''3'']\<rparr>" "take 2 loaned_books"
              "loaned_books ! 2" "drop 3 loaned_books" 3
              "''3''" "[]" "''student''" "''test''"]
  by (simp add: example_world_def loaned_world_def loaned_books_def default_books_def
        visible_subset_def string_eval)

text \<open>
  The claim C4 as stated, without the condition that the caller has a checked-out book
  of their own: in the start-up state book 3 is checked out by \<open>student1\<close>, and the
  student \<open>mridul\<close>, who has borrowed nothing, has typed its id. \<open>return_book\<close> tells
  them that they have nothing to return; the id is not read and the borrower is not
  named.
\<close>

theorem return_refusal_unreached_counterexample:
  "book_id (default_books ''2026-10-29'' ! 2) = 3 \<and>
   status (default_books ''2026-10-29'' ! 2) = ''Checked Out'' \<and>
   borrower (default_books ''2026-10-29'' ! 2) = Some ''student1'' \<and>
   py_int (strip ''3'') = Inr 3 \<and>
   return_book ''mridul'' ''student'' (example_world\<lparr>stdin := [''3'']\<rparr>)
     = (Inr (default_books ''2026-10-29''),
        example_world\<lparr>stdin := [''3''], stdout := [NoneCheckedOutUser ''mridul'']\<rparr>)"
  by (simp add: return_book_def load_books_run bind_def borrowed_loop_run visible_subset_def
        say_def ret_def py_print_def example_world_def default_books_def string_eval)

section \<open>Adding a book\<close>

lemma py_max_fold: "py_max m xs = fold max xs m"
  by (induction xs arbitrary: m) (simp_all add: max_def not_less)

lemma py_max_Max: "py_max m xs = Max (set (m # xs))"
  by (simp only: py_max_fold Max.set_eq_fold)

lemma next_id_Max:
  "next_id books = (if books = [] then 1 else Max (book_id ` set books) + 1)"
  by (cases books) (simp_all add: next_id_def py_max_Max)

lemma duplicate_loop_find:
  "duplicate_loop t a books = find (same_title_author t a) books"
  by (induction books) (simp_all add: same_title_author_def)

lemma add_book_run:
  assumes "books_file w = Content books" and "stdin w = line1 # line2 # line3 # rest"
    and "strip line1 \<noteq> []" and "strip line2 \<noteq> []"
  shows "add_book w =
           (case find (same_title_author (strip line1) (strip line2)) books of
              Some b \<Rightarrow>
                (Inr books,
                 w\<lparr>stdin := rest,
                   stdout := stdout w @
                     [Prompt AskTitle, Prompt AskAuthor, Prompt AskSummary,
                      DuplicateBook (book_id b)]\<rparr>)
            | None \<Rightarrow>
                (let books' = books @
                       [\<lparr>book_id = next_id books, title = strip line1, author = strip line2,
                         status = ''Available'', borrower = None, due_date = None,
                         summary = Some (strip line3)\<rparr>]
                 in (Inr books',
                     if write_fails w
                     then w\<lparr>stdin := rest,
                            stdout := stdout w @
                              [Prompt AskTitle, Prompt AskAuthor, Prompt AskSummary,
                               ErrorSaving BOOKS_FILE, SaveAddFailed]\<rparr>
                     else w\<lparr>books_file := Content books', stdin := rest,
                            stdout := stdout w @
                              [Prompt AskTitle, Prompt AskAuthor, Prompt AskSummary,
                               AddSuccess (strip line1) (strip line2) (next_id books)]\<rparr>)))"
  using assms
  by (simp add: add_book_def load_books_run bind_def py_input_run try_except_def Let_def
        duplicate_loop_find say_def ret_def py_print_def save_data_def write_file_def
        split: option.splits)

text \<open>
  C6. The id \<open>add_book\<close> gives the new record is the maximum of the existing ids
  plus 1, and 1 for an empty collection. With a title and an author entered (non-empty
  once stripped, which is checked first), \<open>add_book\<close> rejects the addition whenever
  a stored book has the same title and author case-insensitively: the collection is
  unchanged in memory and in the store and the message gives the id of such a book.
  Otherwise the record appended carries the computed id.
\<close>

theorem add_book_id_and_duplicates:
  assumes "books_file w = Content books" and "stdin w = line1 # line2 # line3 # rest"
    and "strip line1 \<noteq> []" and "strip line2 \<noteq> []"
  shows "next_id books = (if books = [] then 1 else Max (book_id ` set books) + 1) \<and>
         ((\<exists>b \<in> set books. same_title_author (strip line1) (strip line2) b) \<longrightarrow>
            (\<exists>b \<in> set books. same_title_author (strip line1) (strip line2) b \<and>
               add_book w =
                 (Inr books,
                  w\<lparr>stdin := rest,
                    stdout := stdout w @
                      [Prompt AskTitle, Prompt AskAuthor, Prompt AskSummary,
                       DuplicateBook (book_id b)]\<rparr>))) \<and>
         (\<not> (\<exists>b \<in> set books. same_title_author (strip line1) (strip line2) b) \<longrightarrow>
            add_book w =
              (let books' = books @
                     [\<lparr>book_id = next_id books, title = strip line1, author = strip line2,
                       status = ''Available'', borrower = None, due_date = None,
                       summary = Some (strip line3)\<rparr>]
               in (Inr books',
                   if write_fails w
                   then w\<lparr>stdin := rest,
                          stdout := stdout w @
                            [Prompt AskTitle, Prompt AskAuthor, Prompt AskSummary,
                             ErrorSaving BOOKS_FILE, SaveAddFailed]\<rparr>
                   else w\<lparr>books_file := Content books', stdin := rest,
                          stdout := stdout w @
                            [Prompt AskTitle, Prompt AskAuthor, Prompt AskSummary,
                             AddSuccess (strip line1) (strip line2) (next_id books)]\<rparr>)))"
proof (intro conjI impI)
  show "next_id books = (if books = [] then 1 else Max (book_id ` set books) + 1)"
    by (rule next_id_Max)
next
  assume "\<exists>b \<in> set books. same_title_author (strip line1) (strip line2) b"
  then obtain b where f: "find (same_title_author (strip line1) (strip line2)) books = Some b"
    by (cases "find (same_title_author (strip line1) (strip line2)) books")
       (auto simp add: find_None_iff)
  then have "b \<in> set books" and "same_title_author (strip line1) (strip line2) b"
    by (auto simp add: find_Some_iff)
  moreover have "add_book w =
      (Inr books,
       w\<lparr>stdin := rest,
         stdout := stdout w @
           [Prompt AskTitle, Prompt AskAuthor, Prompt AskSummary, DuplicateBook (book_id b)]\<rparr>)"
    using add_book_run [OF assms] f by simp
  ultimately show "\<exists>b \<in> set books. same_title_author (strip line1) (strip line2) b \<and>
      add_book w =
        (Inr books,
         w\<lparr>stdin := rest,
           stdout := stdout w @
             [Prompt AskTitle, Prompt AskAuthor, Prompt AskSummary,
              DuplicateBook (book_id b)]\<rparr>)"
    by blast
next
  assume "\<not> (\<exists>b \<in> set books. same_title_author (strip line1) (strip line2) b)"
  then have "find (same_title_author (strip line1) (strip line2)) books = None"
    by (simp add: find_None_iff)
  then show "add_book w =
      (let books' = books @
             [\<lparr>book_id = next_id books, title = strip line1, author = strip line2,
               status = ''Available'', borrower = None, due_date = None,
               summary = Some (strip line3)\<rparr>]
       in (Inr books',
           if write_fails w
           then w\<lparr>stdin := rest,
                  stdout := stdout w @
                    [Prompt AskTitle, Prompt AskAuthor, Prompt AskSummary,
                     ErrorSaving BOOKS_FILE, SaveAddFailed]\<rparr>
           else w\<lparr>books_file := Content books', stdin := rest,
                  stdout := stdout w @
                    [Prompt AskTitle, Prompt AskAuthor, Prompt AskSummary,
                     AddSuccess (strip line1) (strip line2) (next_id books)]\<rparr>))"
    using add_book_run [OF assms] by simp
qed

theorem add_book_id_and_duplicates_witness:
  "books_file (example_world\<lparr>books_file := Content [], stdin := [''Dune'', ''Herbert'', ''-'']\<rparr>)
     = Content [] \<and>
   strip ''Dune'' = ''Dune'' \<and> strip ''Herbert'' = ''Herbert'' \<and>
   next_id [] = 1 \<and>
   add_book (example_world\<lparr>books_file := Content [], stdin := [''Dune'', ''Herbert'', ''-'']\<rparr>)
     = (Inr [\<lparr>book_id = 1, title = ''Dune'', author = ''Herbert'', status = ''Available'',
              borrower = None, due_date = None, summary = Some ''-''\<rparr>],
        example_world
          \<lparr>books_file := Content
             [\<lparr>book_id = 1, title = ''Dune'', author = ''Herbert'', status = ''Available'',
               borrower = None, due_date = None, summary = Some ''-''\<rparr>],
           stdin := [],
           stdout := [Prompt AskTitle, Prompt AskAuthor, Prompt AskSummary,
                      AddSuccess ''Dune'' ''Herbert'' 1]\<rparr>) \<and>
   books_file (example_world\<lparr>stdin := ['' dune'', ''FRANK HERBERT '', ''x'']\<rparr>)
     = Content (default_books ''2026-10-29'') \<and>
   strip '' dune'' = ''dune'' \<and> strip ''FRANK HERBERT '' = ''FRANK HERBERT'' \<and>
   default_books ''2026-10-29'' ! 3 \<in> set (default_books ''2026-10-29'') \<and>
   same_title_author ''dune'' ''FRANK HERBERT'' (default_books ''2026-10-29'' ! 3) \<and>
   next_id (default_books ''2026-10-29'') = 5 \<and>
   add_book (example_world\<lparr>stdin := ['' dune'', ''FRANK HERBERT '', ''x'']\<rparr>)
     = (Inr (default_books ''2026-10-29''),
        example_world
          \<lparr>stdin := [],
           stdout := [Prompt AskTitle, Prompt AskAuthor, Prompt AskSummary, DuplicateBook 4]\<rparr>)"
  using add_book_id_and_duplicates
          [of "example_world\<lparr>books_file := Content [], stdin := [''Dune'', ''Herbert'', ''-'']\<rparr>"
              "[]" "''Dune''" "''Herbert''" "''-''" "[]"]
        add_book_id_and_duplicates
          [of "example_world\<lparr>stdin := ['' dune'', ''FRANK HERBERT '', ''x'']\<rparr>"
              "default_books ''2026-10-29''" "'' dune''" "''FRANK HERBERT ''" "''x''" "[]"]
  by (simp add: example_world_def default_books_def same_title_author_def next_id_def
        string_eval)

section \<open>The record invariant\<close>

lemma keeps_ret: "Q x \<Longrightarrow> keeps_invariant (ret x) Q"
  by (simp add: keeps_invariant_def ret_def)

lemma keeps_raise: "keeps_invariant (raise e) Q"
  by (simp add: keeps_invariant_def raise_def)

lemma store_invariant_py_print: "store_invariant (py_print x w) = store_invariant w"
  by (simp add: store_invariant_def)

lemma keeps_say: "Q () \<Longrightarrow> keeps_invariant (say x) Q"
  by (simp add: keeps_invariant_def say_def store_invariant_py_print)

lemma keeps_bind:
  assumes "keeps_invariant m P" and "\<And>x. P x \<Longrightarrow> keeps_invariant (f x) Q"
  shows "keeps_invariant (bind m f) Q"
  unfolding keeps_invariant_def
proof (intro allI impI)
  fix w assume w: "store_invariant w"
  obtain res w' where m: "m w = (res, w')" by (cases "m w")
  from assms(1) w m have w': "store_invariant w'"
    and res: "case res of Inl e \<Rightarrow> True | Inr x \<Rightarrow> P x"
    by (auto simp add: keeps_invariant_def)
  show "store_invariant (snd (bind m f w)) \<and>
        (case fst (bind m f w) of Inl e \<Rightarrow> True | Inr x \<Rightarrow> Q x)"
  proof (cases res)
    case (Inl e)
    with m w' show ?thesis by (simp add: bind_def)
  next
    case (Inr x)
    with res have "P x" by simp
    from assms(2) [OF this] w' have
      "store_invariant (snd (f x w')) \<and> (case fst (f x w') of Inl e \<Rightarrow> True | Inr y \<Rightarrow> Q y)"
      by (simp add: keeps_invariant_def)
    with m Inr show ?thesis by (simp add: bind_def)
  qed
qed

lemma keeps_seq:
  "keeps_invariant m (\<lambda>_. True) \<Longrightarrow> (\<And>x. keeps_invariant (f x) Q) \<Longrightarrow>
   keeps_invariant (bind m f) Q"
  by (rule keeps_bind)

lemma keeps_try_except:
  assumes "keeps_invariant m Q" and "\<And>e. keeps_invariant (h e) Q"
  shows "keeps_invariant (try_except m handles h) Q"
  unfolding keeps_invariant_def
proof (intro allI impI)
  fix w assume w: "store_invariant w"
  obtain res w' where m: "m w = (res, w')" by (cases "m w")
  from assms(1) w m have w': "store_invariant w'"
    and res: "case res of Inl e \<Rightarrow> True | Inr x \<Rightarrow> Q x"
    by (auto simp add: keeps_invariant_def)
  show "store_invariant (snd (try_except m handles h w)) \<and>
        (case fst (try_except m handles h w) of Inl e \<Rightarrow> True | Inr x \<Rightarrow> Q x)"
  proof (cases res)
    case (Inl e)
    from assms(2) [of e] w' have
      "store_invariant (snd (h e w')) \<and> (case fst (h e w') of Inl e \<Rightarrow> True | Inr y \<Rightarrow> Q y)"
      by (simp add: keeps_invariant_def)
    with m Inl w' show ?thesis by (simp add: try_except_def)
  next
    case (Inr x)
    with m w' res show ?thesis by (simp add: try_except_def)
  qed
qed

lemma keeps_py_input: "keeps_invariant (py_input p) (\<lambda>_. True)"
  by (simp add: keeps_invariant_def py_input_run store_invariant_def py_print_def
        split: list.splits)

lemma keeps_load_books: "keeps_invariant load_books (list_all book_invariant)"
  by (simp add: keeps_invariant_def load_books_run store_invariant_def
        split: store_file.splits)

lemma keeps_save_books:
  "list_all book_invariant bs \<Longrightarrow> keeps_invariant (save_data BOOKS_FILE (Books bs)) (\<lambda>_. True)"
  by (simp add: keeps_invariant_def save_data_def write_file_def store_invariant_def)

lemma keeps_save_users:
  "keeps_invariant (save_data USERS_FILE (Users us)) (\<lambda>_. True)"
  by (simp add: keeps_invariant_def save_data_def write_file_def store_invariant_def)

lemma keeps_today_plus: "keeps_invariant (today_plus n) (\<lambda>_. True)"
  by (simp add: keeps_invariant_def today_plus_def split: sum.splits)

lemma keeps_pure: "keeps_invariant (\<lambda>w. (v, w)) (\<lambda>_. True)"
  by (simp add: keeps_invariant_def split: sum.splits)

lemma keeps_display_all: "keeps_invariant (display_all bs d) (\<lambda>_. True)"
  by (simp add: keeps_invariant_def display_all_run store_invariant_def)

lemma keeps_view_all_books: "keeps_invariant view_all_books (\<lambda>_. True)"
  unfolding view_all_books_def
  by (intro keeps_bind [OF keeps_load_books] keeps_say keeps_seq [OF keeps_display_all])
     (auto intro: keeps_say keeps_seq [OF keeps_display_all])

lemma keeps_borrowed_loop: "keeps_invariant (borrowed_loop username r bs) (\<lambda>_. True)"
  by (simp add: keeps_invariant_def borrowed_loop_run store_invariant_def)

lemmas keeps_steps =
  keeps_seq [OF keeps_say] keeps_seq [OF keeps_today_plus] keeps_seq [OF keeps_save_books]
  keeps_seq [OF keeps_py_input] keeps_seq [OF keeps_pure] keeps_seq [OF keeps_view_all_books]
  keeps_seq [OF keeps_borrowed_loop] keeps_seq [OF keeps_save_users] keeps_ret keeps_say
  keeps_raise

lemma book_invariant_updates:
  "book_invariant (b\<lparr>status := ''Checked Out'', borrower := Some u, due_date := Some d\<rparr>)"
  "book_invariant (b\<lparr>status := ''Available'', borrower := None, due_date := None\<rparr>)"
  "book_invariant \<lparr>book_id = i, title = t, author = a, status = ''Available'',
                    borrower = None, due_date = None, summary = s\<rparr>"
  by (simp_all add: book_invariant_def)

lemma keeps_checkout_loop:
  "list_all book_invariant pre \<Longrightarrow> list_all book_invariant rest \<Longrightarrow>
   keeps_invariant (checkout_loop username n pre rest) (list_all book_invariant)"
proof (induction rest arbitrary: pre)
  case Nil
  then show ?case by (auto intro!: keeps_steps)
next
  case (Cons book rest)
  then show ?case
    by (auto intro!: keeps_steps Cons.IH simp add: Let_def book_invariant_updates)
qed

lemma keeps_return_loop:
  "list_all book_invariant pre \<Longrightarrow> list_all book_invariant rest \<Longrightarrow>
   keeps_invariant (return_loop username r n pre rest) (list_all book_invariant)"
proof (induction rest arbitrary: pre)
  case Nil
  then show ?case by (auto intro!: keeps_steps)
next
  case (Cons book rest)
  then show ?case
    by (auto intro!: keeps_steps Cons.IH simp add: Let_def book_invariant_updates)
qed

lemma keeps_checkout_book:
  "keeps_invariant (checkout_book username) (list_all book_invariant)"
  unfolding checkout_book_def
  by (intro keeps_bind [OF keeps_load_books] keeps_seq [OF keeps_view_all_books]
        keeps_try_except)
     (auto intro!: keeps_steps keeps_checkout_loop simp add: Let_def)

lemma keeps_return_book:
  "keeps_invariant (return_book username r) (list_all book_invariant)"
  unfolding return_book_def
  by (intro keeps_bind [OF keeps_load_books] keeps_seq [OF keeps_borrowed_loop])
     (auto intro!: keeps_steps keeps_try_except keeps_return_loop simp add: Let_def)

lemma keeps_add_book: "keeps_invariant add_book (list_all book_invariant)"
  unfolding add_book_def
  by (intro keeps_bind [OF keeps_load_books] keeps_try_except)
     (auto intro!: keeps_steps simp add: Let_def book_invariant_updates split: option.splits)

lemma default_books_invariant: "list_all book_invariant (default_books due)"
  by (simp add: default_books_def book_invariant_def)

lemma keeps_initialize_data: "keeps_invariant initialize_data (\<lambda>_. True)"
  unfolding initialize_data_def
  apply (rule keeps_seq)
   apply (auto simp add: keeps_invariant_def bind_def say_def ret_def save_data_def
      write_file_def store_invariant_def today_plus_def files_distinct
      default_books_invariant split: sum.splits)
  done

text \<open>
  C1. Every book of the start-up data satisfies
  \<open>status == Available \<Longleftrightarrow> borrower == null \<Longleftrightarrow> due_date == null\<close>, and each
  operation that writes the books store keeps it: when every book of the store satisfies
  it before \<open>initialize_data\<close>, \<open>checkout_book\<close>, \<open>return_book\<close> or \<open>add_book\<close>,
  every book of the store satisfies it afterwards, and so does every book of the list
  the operation holds in memory when it returns, whatever is typed and whether or not
  the write succeeds.
\<close>

theorem invariant_preserved:
  "list_all book_invariant (default_books due) \<and>
   (store_invariant w \<longrightarrow>
      store_invariant (snd (initialize_data w)) \<and>
      store_invariant (snd (checkout_book username w)) \<and>
      (\<forall>bs. fst (checkout_book username w) = Inr bs \<longrightarrow> list_all book_invariant bs) \<and>
      store_invariant (snd (return_book username r w)) \<and>
      (\<forall>bs. fst (return_book username r w) = Inr bs \<longrightarrow> list_all book_invariant bs) \<and>
      store_invariant (snd (add_book w)) \<and>
      (\<forall>bs. fst (add_book w) = Inr bs \<longrightarrow> list_all book_invariant bs))"
proof (intro conjI impI)
  show "list_all book_invariant (default_books due)"
    by (rule default_books_invariant)
next
  assume w: "store_invariant w"
  show "store_invariant (snd (initialize_data w))"
    using keeps_initialize_data w by (simp add: keeps_invariant_def)
  show "store_invariant (snd (checkout_book username w))"
    using keeps_checkout_book [of username] w by (simp add: keeps_invariant_def)
  show "\<forall>bs. fst (checkout_book username w) = Inr bs \<longrightarrow> list_all book_invariant bs"
    using keeps_checkout_book [of username] w by (auto simp add: keeps_invariant_def)
  show "store_invariant (snd (return_book username r w))"
    using keeps_return_book [of username r] w by (simp add: keeps_invariant_def)
  show "\<forall>bs. fst (return_book username r w) = Inr bs \<longrightarrow> list_all book_invariant bs"
    using keeps_return_book [of username r] w by (auto simp add: keeps_invariant_def)
  show "store_invariant (snd (add_book w))"
    using keeps_add_book w by (simp add: keeps_invariant_def)
  show "\<forall>bs. fst (add_book w) = Inr bs \<longrightarrow> list_all book_invariant bs"
    using keeps_add_book w by (auto simp add: keeps_invariant_def)
qed

theorem invariant_preserved_witness:
  "list_all book_invariant (default_books ''2026-10-29'') \<and>
   store_invariant (example_world\<lparr>stdin := [''4'']\<rparr>) \<and>
   store_invariant (snd (initialize_data (example_world\<lparr>stdin := [''4'']\<rparr>))) \<and>
   store_invariant (snd (checkout_book ''alice'' (example_world\<lparr>stdin := [''4'']\<rparr>))) \<and>
   store_invariant (snd (return_book ''alice'' ''student'' (example_world\<lparr>stdin := [''4'']\<rparr>))) \<and>
   store_invariant (snd (add_book (example_world\<lparr>stdin := [''4'']\<rparr>)))"
  using invariant_preserved
          [of "''2026-10-29''" "example_world\<lparr>stdin := [''4'']\<rparr>" "''alice''" "''student''"]
  by (simp add: store_invariant_def example_world_def default_books_def book_invariant_def)

end
